theory Spec2Isabelle
  imports Complex_Main
begin

section \<open>LTE line profiles: the embedding of lineProfLTE.py\<close>

text \<open>
  The module computes the brightness temperature of a spectral line of a spherical cloud
  in LTE along a sightline. Its floats are modelled as the reals: rounding, overflow and
  the non-finite values that NumPy produces inside an arithmetic expression are outside
  the model, and division and square root are HOL's total functions. The two places where
  the module hands a possibly non-finite value to a library routine (\<open>np.log\<close> and
  \<open>np.sqrt\<close> of an integration limit) are modelled with an explicit value type, and
  every \<open>raise\<close> of the module is a branch of a sum type.

  The library routines \<open>scipy.integrate.odeint\<close>, \<open>scipy.integrate.quad\<close> and
  \<open>scipy.optimize.fmin\<close>, the table \<open>scipy.constants\<close> and the class
  \<open>emitterData\<close> are not part of the module; the functions below take them as
  parameters.
\<close>

subsection \<open>Physical constants\<close>

text \<open>The entries of \<open>scipy.constants\<close> that the module reads (SI units).\<close>

record physcons =
  pc_k :: real
  pc_c :: real
  pc_m_p :: real
  pc_h :: real

text \<open>
  The module's globals in cgs units: \<open>kB = physcons.k*1e7\<close>, \<open>c = physcons.c*1e2\<close>,
  \<open>mH = physcons.m_p*1e3\<close>, \<open>h = physcons.h*1e7\<close> and \<open>small = 1e-50\<close>. The
  one-letter globals \<open>c\<close> and \<open>h\<close> carry a suffix here. The globals \<open>sigma\<close>,
  \<open>a\<close>, \<open>G\<close> and \<open>M_sun\<close> are never read and are left out.
\<close>

definition kB :: "physcons \<Rightarrow> real" where
  "kB K = pc_k K * 10 ^ 7"

definition c_cgs :: "physcons \<Rightarrow> real" where
  "c_cgs K = pc_c K * 10 ^ 2"

definition mH :: "physcons \<Rightarrow> real" where
  "mH K = pc_m_p K * 10 ^ 3"

definition h_cgs :: "physcons \<Rightarrow> real" where
  "h_cgs K = pc_h K * 10 ^ 7"

definition small :: real where
  "small = 1 / 10 ^ 50"

subsection \<open>Errors and NumPy's special values\<close>

text \<open>
  \<open>NameError\<close> carries the unbound name, \<open>DespoticError\<close> the message of the raised
  \<open>despoticError\<close>. \<open>DivisionByZero\<close> is the outcome of a zero step of the
  velocity grid: Python raises \<open>ZeroDivisionError\<close> on floats of its own and NumPy
  continues with a non-finite step on its scalars; the model stops there.
\<close>

datatype error = NameError string | DespoticError string | DivisionByZero

datatype npfloat = Fin real | PosInf | NegInf | NaN

definition np_log :: "real \<Rightarrow> npfloat" where
  "np_log x = (if 0 < x then Fin (ln x) else if x = 0 then NegInf else NaN)"

definition np_sqrt :: "real \<Rightarrow> npfloat" where
  "np_sqrt x = (if 0 \<le> x then Fin (sqrt x) else NaN)"

fun np_neg :: "npfloat \<Rightarrow> npfloat" where
  "np_neg (Fin x) = Fin (- x)"
| "np_neg PosInf = NegInf"
| "np_neg NegInf = PosInf"
| "np_neg NaN = NaN"

text \<open>
  \<open>np.arange(start, stop, step)\<close>: the \<open>ceil((stop - start)/step)\<close> values
  \<open>start + i*step\<close>.
\<close>

definition np_arange :: "real \<Rightarrow> real \<Rightarrow> real \<Rightarrow> error + real list" where
  "np_arange start stop step =
     (if step = 0 then Inl DivisionByZero
      else Inr (map (\<lambda>i. start + real i * step)
                  [0..<nat \<lceil>(stop - start) / step\<rceil>]))"

subsection \<open>The library routines\<close>

text \<open>
  \<open>odeint sp func y0 (t0, t1) mxstep atol rtol\<close> stands for
  \<open>odeint(func, y0, [t0, t1], mxstep=.., atol=.., rtol=.., args=..)[1]\<close> with the
  \<open>args\<close> already applied to \<open>func\<close>; \<open>fmin sp func x0 xtol\<close> for
  \<open>fmin(func, x0, xtol=.., full_output=1, disp=0, retall=1)[0][0]\<close>; and
  \<open>quad sp func a b\<close> for \<open>quad(func, a, b)[0]\<close>.
\<close>

record scipy =
  odeint :: "(real \<Rightarrow> real \<Rightarrow> real) \<Rightarrow> real \<Rightarrow> npfloat \<times> npfloat \<Rightarrow> int \<Rightarrow> real \<Rightarrow> real \<Rightarrow> real"
  fmin :: "(real \<Rightarrow> real) \<Rightarrow> real \<Rightarrow> real \<Rightarrow> real"
  quad :: "(real \<Rightarrow> real) \<Rightarrow> real \<Rightarrow> real \<Rightarrow> real"

subsection \<open>Emitter data and profiles\<close>

text \<open>
  The attributes of \<open>emitterData\<close> that the module reads; the arrays are indexed by
  level numbers.
\<close>

record emitterData =
  EinsteinA :: "nat \<Rightarrow> nat \<Rightarrow> real"
  freq :: "nat \<Rightarrow> nat \<Rightarrow> real"
  levWgt :: "nat \<Rightarrow> real"
  levTemp :: "nat \<Rightarrow> real"
  partFunc :: "real \<Rightarrow> real"
  molWgt :: "real"

text \<open>A profile argument is a float or a callable (\<open>isinstance(p, float)\<close>).\<close>

datatype profile = Const real | Func "real \<Rightarrow> real"

subsection \<open>The helper classes\<close>

record normFunc =
  nf_func :: "real \<Rightarrow> real"
  nf_norm :: real

text \<open>\<open>_normFunc.f\<close> and \<open>_normFunc2.f\<close>.\<close>

definition normFunc_f :: "normFunc \<Rightarrow> real \<Rightarrow> real" where
  "normFunc_f self arg = nf_func self arg / nf_norm self"

definition normFunc2_f :: "normFunc \<Rightarrow> real \<Rightarrow> real" where
  "normFunc2_f self arg = nf_func self (arg * nf_norm self)"

definition unity :: "real \<Rightarrow> real" where
  "unity r = 1"

record transferEqn =
  te_d :: normFunc
  te_T :: normFunc
  te_u :: normFunc
  te_sigma :: normFunc
  te_v0 :: real
  te_beta :: real
  te_betas :: real
  te_betaNT :: real
  te_freq :: real
  te_Theta :: real
  te_tau0 :: real
  te_I0 :: real
  te_prefac :: real
  te_Z :: normFunc
  te_offset :: real
  te_sigmaTot :: real

text \<open>\<open>_transferEqn.__init__\<close>.\<close>

definition transferEqn_init ::
  "physcons \<Rightarrow> emitterData \<Rightarrow> nat \<Rightarrow> nat \<Rightarrow> real \<Rightarrow> profile \<Rightarrow> profile \<Rightarrow> profile \<Rightarrow> profile
     \<Rightarrow> real \<Rightarrow> transferEqn" where
  "transferEqn_init K emdat u l R denProf TProf vProf sigmaProf offset =
     (let (d0, self_d) =
            (case denProf of
               Const x \<Rightarrow> (x, \<lparr>nf_func = unity, nf_norm = 1\<rparr>)
             | Func g \<Rightarrow> (g 1, \<lparr>nf_func = g, nf_norm = g 1\<rparr>));
          (T0, self_T) =
            (case TProf of
               Const x \<Rightarrow> (x, \<lparr>nf_func = unity, nf_norm = 1\<rparr>)
             | Func g \<Rightarrow> (g 1, \<lparr>nf_func = g, nf_norm = g 1\<rparr>));
          (self_v0, self_u) =
            (case vProf of
               Const x \<Rightarrow> (x, \<lparr>nf_func = unity, nf_norm = 1\<rparr>)
             | Func g \<Rightarrow> (g 1, \<lparr>nf_func = g, nf_norm = g 1\<rparr>));
          (sigma0, self_sigma) =
            (case sigmaProf of
               Const x \<Rightarrow> (x, \<lparr>nf_func = unity, nf_norm = 1\<rparr>)
             | Func g \<Rightarrow> (g 1, \<lparr>nf_func = g, nf_norm = g 1\<rparr>));
          cs0 = sqrt (kB K * T0 / (molWgt emdat * mH K));
          self_freq = freq emdat u l;
          wavelength = c_cgs K / self_freq
      in \<lparr>te_d = self_d, te_T = self_T, te_u = self_u, te_sigma = self_sigma,
          te_v0 = self_v0,
          te_beta = self_v0 / c_cgs K,
          te_betas = cs0 / c_cgs K,
          te_betaNT = sigma0 / c_cgs K,
          te_freq = self_freq,
          te_Theta = h_cgs K * c_cgs K / (wavelength * kB K * T0),
          te_tau0 = EinsteinA emdat u l * wavelength ^ 3 * d0 * R / (2 * c_cgs K),
          te_I0 = EinsteinA emdat u l * d0 * h_cgs K * R,
          te_prefac = d0 * levWgt emdat u * exp (- levTemp emdat l / T0) / (4 * pi),
          te_Z = \<lparr>nf_func = partFunc emdat, nf_norm = T0\<rparr>,
          te_offset = offset,
          te_sigmaTot = sqrt (cs0\<^sup>2 + self_v0\<^sup>2)\<rparr>)"

text \<open>
  \<open>_transferEqn.rhs\<close>. Its first statement \<open>v=(c*(f-1))\<close> binds a value that is
  never read.
\<close>

definition rhs :: "transferEqn \<Rightarrow> real \<Rightarrow> real \<Rightarrow> real \<Rightarrow> real" where
  "rhs self I x f =
     (let r = sqrt (x\<^sup>2 + (te_offset self)\<^sup>2);
          sigmaf = sqrt ((te_betas self)\<^sup>2 * normFunc_f (te_T self) r
                         + (te_betaNT self)\<^sup>2 * (normFunc_f (te_sigma self) r)\<^sup>2);
          f0 = 1 - te_beta self * normFunc_f (te_u self) r * sin (x / (r + small));
          phif = 1 / sqrt (2 * pi * sigmaf\<^sup>2) * exp (- (f - f0)\<^sup>2 / (2 * sigmaf\<^sup>2))
      in normFunc_f (te_d self) r
           * (te_prefac self / normFunc2_f (te_Z self) (normFunc_f (te_T self) r))
           * (exp (- te_Theta self / normFunc_f (te_T self) r)
              - te_tau0 self * (1 - exp (- te_Theta self / normFunc_f (te_T self) r)) * I)
           * phif)"

text \<open>\<open>_transferEqn.rhs_log\<close>; the module calls it with \<open>te\<close> the object itself.\<close>

definition rhs_log :: "transferEqn \<Rightarrow> real \<Rightarrow> real \<Rightarrow> transferEqn \<Rightarrow> real \<Rightarrow> int \<Rightarrow> real" where
  "rhs_log self I logx te f sg =
     of_int sg * rhs te I (of_int sg * exp logx) f
       * ((exp logx)\<^sup>2 / sqrt ((exp logx)\<^sup>2 + (te_offset self)\<^sup>2))"

subsection \<open>The pencil beam\<close>

text \<open>
  The normalised CMB intensity that \<open>LineProfLTE_pencil\<close> binds to \<open>ICMB\<close>, as a
  function of the frequency ratio \<open>f\<close>.
\<close>

definition ICMB :: "physcons \<Rightarrow> transferEqn \<Rightarrow> real \<Rightarrow> real \<Rightarrow> real" where
  "ICMB K te f TCMB =
     (2 * h_cgs K * te_freq te ^ 3 / (c_cgs K)\<^sup>2)
       / (exp (h_cgs K * f * te_freq te / (kB K * TCMB)) - 1) / te_I0 te"

text \<open>The value bound to \<open>r_los\<close>: the direction \<open>sign\<close> and the \<open>fmin\<close> call.\<close>

definition pencil_r_los :: "physcons \<Rightarrow> scipy \<Rightarrow> real \<Rightarrow> transferEqn \<Rightarrow> real \<Rightarrow> real" where
  "pencil_r_los K sp v te TCMB =
     (let f = 1 + v / c_cgs K;
          ICMB' = ICMB K te f TCMB;
          sign = (if v < 0 then - 1 else 1)
      in fmin sp (\<lambda>x. - rhs te ICMB' (sign * x) f) (1 / 1000) (10 powr (- 5)))"

text \<open>The three lists of the branch \<open>r_los < 1\<close>.\<close>

definition pencil_xLim :: "real \<Rightarrow> real list" where
  "pencil_xLim r_los =
     [- 1, - (11 / 10) * r_los, - r_los, - r_los / 10, - r_los / 100,
      r_los / 100, r_los / 10, r_los, (11 / 10) * r_los, 1]"

definition pencil_logscale :: "bool list" where
  "pencil_logscale = [True, True, True, True, False, True, True, True, True, True]"

definition pencil_sgn :: "int list" where
  "pencil_sgn = [- 1, - 1, - 1, - 1, - 1, 0, 1, 1, 1, 1, 1]"

text \<open>
  The body of the loop \<open>for i in range(len(xLim)-1)\<close>: one \<open>odeint\<close> call, from the
  intensity \<open>Itmp\<close> to the next one. The loop reads the lists inside their bounds.
\<close>

definition pencil_segment ::
  "scipy \<Rightarrow> transferEqn \<Rightarrow> real \<Rightarrow> real list \<Rightarrow> bool list \<Rightarrow> int list \<Rightarrow> real \<Rightarrow> nat \<Rightarrow> real" where
  "pencil_segment sp te f xLim logscale sg Itmp i =
     (if logscale ! i
      then odeint sp (\<lambda>I logx. rhs_log te I logx te f (sg ! i)) Itmp
             (np_log (of_int (sg ! i) * xLim ! i), np_log (of_int (sg ! i) * xLim ! (i + 1)))
             10000 (1 / 10 ^ 11) (1 / 10 ^ 11)
      else odeint sp (\<lambda>I x. rhs te I x f) Itmp
             (Fin (xLim ! i), Fin (xLim ! (i + 1)))
             10000 (1 / 10 ^ 11) (1 / 10 ^ 11))"

text \<open>\<open>LineProfLTE_pencil\<close>.\<close>

definition LineProfLTE_pencil ::
  "physcons \<Rightarrow> scipy \<Rightarrow> real \<Rightarrow> transferEqn \<Rightarrow> real \<Rightarrow> real \<Rightarrow> int \<Rightarrow> real" where
  "LineProfLTE_pencil K sp v te offset TCMB mxstep =
     (let f = 1 + v / c_cgs K;
          ICMB' = ICMB K te f TCMB;
          r_los = pencil_r_los K sp v te TCMB;
          Itmp =
            (if r_los < 1
             then (let xLim = pencil_xLim r_los;
                       logscale = pencil_logscale;
                       sg = pencil_sgn
                   in foldl (pencil_segment sp te f xLim logscale sg) ICMB'
                        [0..<length xLim - 1])
             else (let sLim = (np_neg (np_sqrt (1 - offset\<^sup>2)), np_sqrt (1 - offset\<^sup>2))
                   in odeint sp (\<lambda>I x. rhs te I x f) ICMB' sLim
                        mxstep (1 / 10 ^ 11) (1 / 10 ^ 11)))
      in Itmp - ICMB')"

subsection \<open>The driver\<close>

text \<open>
  Step 3 of \<open>lineProfLTE\<close>: the list of output velocities. \<open>vOut\<close>, \<open>vLim\<close> and
  \<open>dv\<close> default to \<open>None\<close>, and \<open>vOut == None\<close> is read as the test whether the
  caller gave \<open>vOut\<close>; \<open>nOut\<close> is an integer, and \<open>nOut = 1\<close> divides by zero.
\<close>

definition lineProfLTE_vOut ::
  "transferEqn \<Rightarrow> real list option \<Rightarrow> (real \<times> real) option \<Rightarrow> int \<Rightarrow> real option
     \<Rightarrow> error + real list" where
  "lineProfLTE_vOut te vOut vLim nOut dv =
     (case vOut of
        None \<Rightarrow>
          (case dv of
             None \<Rightarrow>
               (let vLim' =
                      (case vLim of
                         None \<Rightarrow> (- 5 * te_sigmaTot te - \<bar>te_v0 te\<bar>,
                                  5 * te_sigmaTot te + \<bar>te_v0 te\<bar>)
                       | Some p \<Rightarrow> p)
                in if nOut - 1 = 0 then Inl DivisionByZero
                   else np_arange (fst vLim') (snd vLim' * (1 + 1 / 10 ^ 6))
                          ((snd vLim' - fst vLim') / of_int (nOut - 1)))
           | Some dv' \<Rightarrow>
               np_arange (- dv' * (of_int nOut / 2)) (dv' * (of_int nOut / 2 + 1 / 10 ^ 6)) dv')
      | Some vs \<Rightarrow> Inr vs)"

text \<open>Step 4: the intensity at each velocity of the list.\<close>

definition lineProfLTE_iOut ::
  "physcons \<Rightarrow> scipy \<Rightarrow> transferEqn \<Rightarrow> real \<Rightarrow> real \<Rightarrow> int \<Rightarrow> real \<Rightarrow> real list \<Rightarrow> real list" where
  "lineProfLTE_iOut K sp te offset TCMB mxstep beamdisp vOut =
     map (\<lambda>v.
            if beamdisp = 0
            then LineProfLTE_pencil K sp v te offset TCMB mxstep
            else 1 / beamdisp\<^sup>2
                   * quad sp (\<lambda>r. r * exp (- r\<^sup>2 / (2 * beamdisp\<^sup>2))
                                    * LineProfLTE_pencil K sp v te offset TCMB mxstep) 0 1)
         vOut"

text \<open>
  Step 5: the brightness temperatures, then the two masked assignments
  \<open>TB[iOut < 0] *= -1.0\<close> and \<open>TB[iOut == 0.0] = 0.0\<close>.
\<close>

definition lineProfLTE_TB ::
  "physcons \<Rightarrow> emitterData \<Rightarrow> nat \<Rightarrow> nat \<Rightarrow> transferEqn \<Rightarrow> real list \<Rightarrow> real list" where
  "lineProfLTE_TB K emdat u l te iOut =
     (let TB = map (\<lambda>I. (h_cgs K * freq emdat u l / kB K)
                          / ln (1 + 2 * h_cgs K * freq emdat u l ^ 3
                                      / ((c_cgs K)\<^sup>2 * \<bar>I\<bar> * te_I0 te + small))) iOut;
          TB = map (\<lambda>(t, I). if I < 0 then t * (- 1) else t) (zip TB iOut);
          TB = map (\<lambda>(t, I). if I = 0 then 0 else t) (zip TB iOut)
      in TB)"

text \<open>
  \<open>lineProfLTE\<close>. The name \<open>depoticError\<close> of its first \<open>raise\<close> is bound nowhere in
  the module (the import is \<open>despoticError\<close>), so that statement raises \<open>NameError\<close>.
\<close>

definition lineProfLTE ::
  "physcons \<Rightarrow> scipy \<Rightarrow> emitterData \<Rightarrow> nat \<Rightarrow> nat \<Rightarrow> real \<Rightarrow> profile \<Rightarrow> profile \<Rightarrow> profile \<Rightarrow> profile
     \<Rightarrow> real \<Rightarrow> real \<Rightarrow> real list option \<Rightarrow> (real \<times> real) option \<Rightarrow> int \<Rightarrow> real option \<Rightarrow> int \<Rightarrow> real
     \<Rightarrow> error + (real list \<times> real list)" where
  "lineProfLTE K sp emdat u l R denProf TProf vProf sigmaProf offset TCMB vOut vLim nOut dv
       mxstep beamdisp =
     (if EinsteinA emdat u l = 0 then Inl (NameError ''depoticError'')
      else if offset < 0 \<or> offset > 1
      then Inl (DespoticError ''offset must be in the range 0 - 1'')
      else if beamdisp > 0 \<and> offset > 0
      then Inl (DespoticError ''offset > 0 with Gaussian beams not yet implemented'')
      else
        (let te = transferEqn_init K emdat u l R denProf TProf vProf sigmaProf offset
         in case lineProfLTE_vOut te vOut vLim nOut dv of
              Inl e \<Rightarrow> Inl e
            | Inr vOut' \<Rightarrow>
                (let iOut = lineProfLTE_iOut K sp te offset TCMB mxstep beamdisp vOut';
                     TB = lineProfLTE_TB K emdat u l te iOut
                 in Inr (TB, vOut'))))"

section \<open>The specification's formulas\<close>

text \<open>
  The edge value of a profile and its normalised form: a float profile is its own edge
  value and normalises to one.
\<close>

definition profile_edge :: "profile \<Rightarrow> real" where
  "profile_edge p = (case p of Const x \<Rightarrow> x | Func g \<Rightarrow> g 1)"

definition profile_normalized :: "profile \<Rightarrow> real \<Rightarrow> real" where
  "profile_normalized p r = (case p of Const x \<Rightarrow> 1 | Func g \<Rightarrow> g r / g 1)"

text \<open>The unit-normalised Gaussian of width \<open>sigmaf\<close> centred at \<open>f0\<close>.\<close>

definition spec_gaussian :: "real \<Rightarrow> real \<Rightarrow> real \<Rightarrow> real" where
  "spec_gaussian sigmaf f0 f =
     (1 / sqrt (2 * pi * sigmaf\<^sup>2)) * exp (- (f - f0)\<^sup>2 / (2 * sigmaf\<^sup>2))"

text \<open>
  The local derivative as the specification words it, from the normalised profiles, the
  partition function \<open>Z\<close>, the edge temperature \<open>T0\<close> and the dimensionless parameters.
\<close>

definition spec_rhs ::
  "(real \<Rightarrow> real) \<Rightarrow> (real \<Rightarrow> real) \<Rightarrow> (real \<Rightarrow> real) \<Rightarrow> (real \<Rightarrow> real) \<Rightarrow> (real \<Rightarrow> real) \<Rightarrow> real
     \<Rightarrow> real \<Rightarrow> real \<Rightarrow> real \<Rightarrow> real \<Rightarrow> real \<Rightarrow> real \<Rightarrow> real
     \<Rightarrow> real \<Rightarrow> real \<Rightarrow> real \<Rightarrow> real" where
  "spec_rhs dnorm Tnorm unorm sigmanorm Z T0 beta betas betaNT Theta tau0 prefactor offset I x f =
     (let r = sqrt (x\<^sup>2 + offset\<^sup>2);
          sigmaf = sqrt (betas\<^sup>2 * Tnorm r + betaNT\<^sup>2 * (sigmanorm r)\<^sup>2);
          f0 = 1 - beta * unorm r * sin (x / (r + small));
          S = dnorm r * (prefactor / Z (Tnorm r * T0))
                * (exp (- Theta / Tnorm r) - tau0 * (1 - exp (- Theta / Tnorm r)) * I)
      in S * spec_gaussian sigmaf f0 f)"







section \<open>Concrete inputs\<close>

text \<open>The CODATA 2018 values of the four constants.\<close>

definition K0 :: physcons where
  "K0 = \<lparr>pc_k = 1380649 / 10 ^ 29, pc_c = 299792458,
         pc_m_p = 167262192369 / 10 ^ 38, pc_h = 662607015 / 10 ^ 42\<rparr>"

text \<open>
  The emitter of the specification's scenario: one transition, from level 1 to level 0,
  with Einstein coefficient \<open>1e-5\<close> and frequency \<open>1e11\<close>, in a uniform cloud of radius
  \<open>3e16\<close>, density \<open>1e4\<close> and temperature \<open>20\<close>.
\<close>

definition emdat0 :: emitterData where
  "emdat0 = \<lparr>EinsteinA = (\<lambda>u l. if u = 1 \<and> l = 0 then 1 / 10 ^ 5 else 0),
             freq = (\<lambda>u l. 10 ^ 11), levWgt = (\<lambda>u. 3), levTemp = (\<lambda>l. 10),
             partFunc = (\<lambda>T. 1), molWgt = 28\<rparr>"


text \<open>
  A stand-in for the library that shows which step budget reaches \<open>odeint\<close>: the
  integration returns the budget it was given, and the search returns its start.
\<close>

definition sp_budget :: scipy where
  "sp_budget = \<lparr>odeint = (\<lambda>func y0 t mxstep atol rtol. of_int mxstep),
                fmin = (\<lambda>func x0 xtol. x0),
                quad = (\<lambda>func a b. 0)\<rparr>"

section \<open>The transfer equation\<close>

text \<open>What the constructor stores in the five wrapped functions.\<close>

lemma init_d:
  "normFunc_f (te_d (transferEqn_init K emdat u l R denProf TProf vProf sigmaProf offset)) r
     = profile_normalized denProf r"
  by (simp add: transferEqn_init_def Let_def normFunc_f_def profile_normalized_def unity_def
        split: profile.splits prod.splits)

lemma init_T:
  "normFunc_f (te_T (transferEqn_init K emdat u l R denProf TProf vProf sigmaProf offset)) r
     = profile_normalized TProf r"
  by (simp add: transferEqn_init_def Let_def normFunc_f_def profile_normalized_def unity_def
        split: profile.splits prod.splits)

lemma init_u:
  "normFunc_f (te_u (transferEqn_init K emdat u l R denProf TProf vProf sigmaProf offset)) r
     = profile_normalized vProf r"
  by (simp add: transferEqn_init_def Let_def normFunc_f_def profile_normalized_def unity_def
        split: profile.splits prod.splits)

lemma init_sigma:
  "normFunc_f (te_sigma (transferEqn_init K emdat u l R denProf TProf vProf sigmaProf offset)) r
     = profile_normalized sigmaProf r"
  by (simp add: transferEqn_init_def Let_def normFunc_f_def profile_normalized_def unity_def
        split: profile.splits prod.splits)

lemma init_Z:
  "normFunc2_f (te_Z (transferEqn_init K emdat u l R denProf TProf vProf sigmaProf offset)) t
     = partFunc emdat (t * profile_edge TProf)"
  by (simp add: transferEqn_init_def Let_def normFunc2_f_def profile_edge_def
        split: profile.splits prod.splits)

text \<open>
  Claim C1. For every intensity \<open>I\<close>, sightline coordinate \<open>x\<close> and frequency ratio
  \<open>f\<close>, the right-hand side of the transfer equation of a constructed context is
  \<open>dnorm(r) * (prefactor / Z(Tnorm(r) * T0)) * (exp(-Theta/Tnorm(r)) - tau0 *
  (1 - exp(-Theta/Tnorm(r))) * I) * phi(f)\<close> with \<open>r = sqrt(x\<^sup>2 + offset\<^sup>2)\<close>, \<open>phi\<close> the
  unit-normalised Gaussian of width \<open>sqrt(betas\<^sup>2 * Tnorm(r) + betaNT\<^sup>2 * sigmanorm(r)\<^sup>2)\<close>
  centred at \<open>1 - beta * unorm(r) * sin(x/(r + small))\<close>; the partition function of the
  emitter is applied to the physical temperature \<open>Tnorm(r) * T0\<close>, where \<open>T0\<close> is the
  edge value of the temperature profile.
\<close>

theorem rhs_is_transfer_formula:
  "rhs (transferEqn_init K emdat u l R denProf TProf vProf sigmaProf offset) I x f =
     spec_rhs (profile_normalized denProf) (profile_normalized TProf)
       (profile_normalized vProf) (profile_normalized sigmaProf)
       (partFunc emdat) (profile_edge TProf)
       (te_beta (transferEqn_init K emdat u l R denProf TProf vProf sigmaProf offset))
       (te_betas (transferEqn_init K emdat u l R denProf TProf vProf sigmaProf offset))
       (te_betaNT (transferEqn_init K emdat u l R denProf TProf vProf sigmaProf offset))
       (te_Theta (transferEqn_init K emdat u l R denProf TProf vProf sigmaProf offset))
       (te_tau0 (transferEqn_init K emdat u l R denProf TProf vProf sigmaProf offset))
       (te_prefac (transferEqn_init K emdat u l R denProf TProf vProf sigmaProf offset))
       (te_offset (transferEqn_init K emdat u l R denProf TProf vProf sigmaProf offset))
       I x f"
  unfolding rhs_def spec_rhs_def spec_gaussian_def init_d init_T init_u init_sigma init_Z Let_def
  by simp

section \<open>Brightness temperature\<close>



section \<open>The pencil beam: seed, search and segments\<close>









text \<open>
  Claim C4, at the segment from \<open>x*/100\<close> to \<open>x*/10\<close> (index 5 of the loop): the list of
  signs holds \<open>0\<close> at that index, so both limits handed to \<open>odeint\<close> are \<open>log 0\<close> and
  the derivative is the constant \<open>0\<close>, for every \<open>r_los\<close>. The segment is not
  integrated in log coordinates from \<open>log(x*/100)\<close> to \<open>log(x*/10)\<close>.
\<close>

theorem interior_segment_5_has_zero_sign:
  "pencil_segment sp te f (pencil_xLim r_los) pencil_logscale pencil_sgn Itmp 5 =
     odeint sp (\<lambda>I logx. 0) Itmp (NegInf, NegInf) 10000 (1 / 10 ^ 11) (1 / 10 ^ 11)"
  by (simp add: pencil_segment_def pencil_xLim_def pencil_logscale_def pencil_sgn_def
        rhs_log_def np_log_def)

text \<open>
  Claim C8, at the step budget 500: when the search returns its start \<open>0.001\<close> (below
  one) and \<open>odeint\<close> reports the budget it receives, the pencil beam returns
  \<open>10000 - ICMB\<close>: the last segment of the ten-breakpoint branch ran with the fixed
  budget 10000, not with the caller's 500.
\<close>

theorem interior_budget_is_fixed:
  "LineProfLTE_pencil K sp_budget v te offset TCMB 500
     = 10000 - ICMB K te (1 + v / c_cgs K) TCMB"
  by (simp add: LineProfLTE_pencil_def pencil_r_los_def sp_budget_def Let_def pencil_xLim_def
        pencil_segment_def pencil_logscale_def pencil_sgn_def upt_rec)

section \<open>The driver\<close>

text \<open>
  Claim C5, at the beam dispersion \<open>1/2\<close>: the integrand handed to \<open>quad\<close> multiplies
  the kernel \<open>r * exp(-r\<^sup>2/(2*beamdisp\<^sup>2))\<close> by the pencil beam at the call's own
  \<open>offset\<close>, the same for every \<open>r\<close>; the impact parameter \<open>r\<close> does not reach the
  pencil beam.
\<close>

theorem beam_integrand_ignores_impact_parameter:
  "lineProfLTE_iOut K sp te offset TCMB mxstep (1 / 2) vOut =
     map (\<lambda>v. 1 / (1 / 2)\<^sup>2
                 * quad sp (\<lambda>r. r * exp (- r\<^sup>2 / (2 * (1 / 2)\<^sup>2))
                                  * LineProfLTE_pencil K sp v te offset TCMB mxstep) 0 1) vOut"
  unfolding lineProfLTE_iOut_def by simp

text \<open>
  Claim C6, as the code has it: for every pair of states with \<open>EinsteinA[u,l] = 0\<close> the
  call fails at once, before the offset is looked at and before any numerical work,
  with \<open>NameError\<close> for the unbound name \<open>depoticError\<close>, not with the
  \<open>despoticError\<close> of the other two checks.
\<close>

theorem missing_transition_raises_NameError:
  "EinsteinA emdat u l = 0 \<Longrightarrow>
   lineProfLTE K sp emdat u l R denProf TProf vProf sigmaProf offset TCMB vOut vLim nOut dv
       mxstep beamdisp = Inl (NameError ''depoticError'')"
  by (simp add: lineProfLTE_def)

theorem missing_transition_raises_NameError_witness:
  "EinsteinA emdat0 2 1 = 0
   \<and> lineProfLTE K0 sp_budget emdat0 2 1 (3 * 10 ^ 16) (Const (10 ^ 4)) (Const 20) (Const 0)
       (Const 0) 0 (273 / 100) None None 100 None 10000 0 = Inl (NameError ''depoticError'')"
proof -
  have z: "EinsteinA emdat0 2 1 = 0"
    by (simp add: emdat0_def)
  show ?thesis
    using z missing_transition_raises_NameError [OF z] by simp
qed








end
